theory Spec2Isabelle
  imports Main
begin

section \<open>Data model\<close>

text \<open>
  The job description that the intake handler builds (\<open>process_xyz_file\<close>) and that the
  store keeps under the key \<open>info\<close>. The intake handler always sets all five keys, so the
  dictionary is a record.
\<close>

type_synonym job_id = string

record job_info =
  molecule_name :: string
  xyz_file :: string
  inp_file :: string
  calc_type :: string
  retry_count :: nat

text \<open>
  The persisted state document of \<open>StateStore\<close>: \<open>queued\<close> is a list of entries
  (\<open>job_id\<close>, \<open>info\<close>), \<open>running\<close> a dictionary from job id to its info, \<open>completed\<close> and
  \<open>failed\<close> lists of (\<open>job_id\<close>, \<open>info\<close>, result or error text). The time stamps
  (\<open>added_at\<close>, \<open>started_at\<close>, \<open>completed_at\<close>, \<open>failed_at\<close>, \<open>last_updated\<close>) are
  written by the code and read by none of it; they are left out.
\<close>

record pipeline_state =
  queued :: "(job_id \<times> job_info) list"
  running :: "job_id \<rightharpoonup> job_info"
  completed :: "(job_id \<times> job_info \<times> string) list"
  failed :: "(job_id \<times> job_info \<times> string) list"

datatype level = INFO | WARNING | ERROR

text \<open>
  Everything the pipeline mutates: the state document on disk, the log, the counters of
  the \<open>Notifier\<close> object, the mails that were delivered (by subject) and the files that
  were created (directory and file name).
\<close>

record world =
  doc :: pipeline_state
  logs :: "(level \<times> string) list"
  completion_count :: nat
  last_notification :: "int option"
  outbox :: "string list"
  created :: "(string \<times> string) list"

text \<open>
  A Python exception, with its text. A call either returns a value or raises; the world
  it leaves behind is kept in both cases.
\<close>

datatype exn = Exn string

type_synonym 'a act = "world \<Rightarrow> (exn + 'a) \<times> world"

definition ret :: "'a \<Rightarrow> 'a act" where
  "ret x w = (Inr x, w)"

definition throw :: "exn \<Rightarrow> 'a act" where
  "throw e w = (Inl e, w)"

definition and_then :: "'a act \<Rightarrow> ('a \<Rightarrow> 'b act) \<Rightarrow> 'b act" where
  "and_then m f w = (case m w of (Inl e, w') \<Rightarrow> (Inl e, w') | (Inr x, w') \<Rightarrow> f x w')"

definition try_except :: "'a act \<Rightarrow> (exn \<Rightarrow> 'a act) \<Rightarrow> 'a act" where
  "try_except m h w = (case m w of (Inl e, w') \<Rightarrow> h e w' | (Inr x, w') \<Rightarrow> (Inr x, w'))"

definition log_msg :: "level \<Rightarrow> string \<Rightarrow> unit act" where
  "log_msg l m w = (Inr (), w\<lparr>logs := logs w @ [(l, m)]\<rparr>)"

section \<open>Atomic write (orca\_safe\_file.py)\<close>

text \<open>
  What the file system does to one \<open>atomic_write\<close>: it succeeds; or the temporary file is
  created and writing or moving it raises; or creating the temporary file raises.
\<close>

datatype fs_condition = Fs_ok | Fs_write_fails | Fs_tmp_fails

text \<open>
  \<open>atomic_json_write\<close> through \<open>atomic_write\<close>, for the state document. On success the
  document is replaced and True returned. An exception inside the \<open>try\<close> is logged and the
  handler returns False after removing the temporary file; when the exception came from
  creating the temporary file, \<open>tmp_path\<close> was never assigned and the handler's
  \<open>tmp_path.exists()\<close> raises \<open>UnboundLocalError\<close>. The path and the exception text in
  the log line come from the operating system and are left out of the message.
\<close>

definition atomic_json_write :: "fs_condition \<Rightarrow> pipeline_state \<Rightarrow> bool act" where
  "atomic_json_write fs d =
     (case fs of
        Fs_ok \<Rightarrow> (\<lambda>w. (Inr True, w\<lparr>doc := d\<rparr>))
      | Fs_write_fails \<Rightarrow> and_then (log_msg ERROR ''Failed to write'') (\<lambda>_. ret False)
      | Fs_tmp_fails \<Rightarrow>
          and_then (log_msg ERROR ''Failed to write'') (\<lambda>_. throw (Exn ''UnboundLocalError'')))"

section \<open>State store (orca\_state.py)\<close>

text \<open>
  \<open>_load_state\<close> reads the document (the constructor has created it);
  \<open>_save_state\<close> writes it and drops what \<open>atomic_json_write\<close> returns.
\<close>

definition load_state :: "pipeline_state act" where
  "load_state w = (Inr (doc w), w)"

definition save_state :: "fs_condition \<Rightarrow> pipeline_state \<Rightarrow> unit act" where
  "save_state fs s = and_then (atomic_json_write fs s) (\<lambda>_. ret ())"

definition add_job :: "fs_condition \<Rightarrow> job_id \<Rightarrow> job_info \<Rightarrow> unit act" where
  "add_job fs jid info =
     and_then load_state (\<lambda>s.
       if jid \<notin> set (map fst (queued s)) then
         and_then (save_state fs (s\<lparr>queued := queued s @ [(jid, info)]\<rparr>)) (\<lambda>_.
           log_msg INFO (''Added job to queue: '' @ jid))
       else ret ())"

definition get_next_job :: "fs_condition \<Rightarrow> (job_id \<times> job_info) option act" where
  "get_next_job fs =
     and_then load_state (\<lambda>s.
       case queued s of
         [] \<Rightarrow> ret None
       | (jid, info) # rest \<Rightarrow>
           and_then (save_state fs (s\<lparr>queued := rest, running := (running s)(jid \<mapsto> info)\<rparr>)) (\<lambda>_.
             ret (Some (jid, info))))"

definition mark_completed :: "fs_condition \<Rightarrow> job_id \<Rightarrow> string \<Rightarrow> unit act" where
  "mark_completed fs jid result_info =
     and_then load_state (\<lambda>s.
       case running s jid of
         None \<Rightarrow> ret ()
       | Some info \<Rightarrow>
           and_then (save_state fs (s\<lparr>running := (running s)(jid := None),
                                       completed := completed s @ [(jid, info, result_info)]\<rparr>)) (\<lambda>_.
             log_msg INFO (''Job completed: '' @ jid)))"

definition mark_failed :: "fs_condition \<Rightarrow> job_id \<Rightarrow> string \<Rightarrow> unit act" where
  "mark_failed fs jid error_info =
     and_then load_state (\<lambda>s.
       case running s jid of
         None \<Rightarrow> ret ()
       | Some info \<Rightarrow>
           and_then (save_state fs (s\<lparr>running := (running s)(jid := None),
                                       failed := failed s @ [(jid, info, error_info)]\<rparr>)) (\<lambda>_.
             log_msg ERROR (''Job failed: '' @ jid @ '' - '' @ error_info)))"

definition get_queue_size :: "nat act" where
  "get_queue_size = and_then load_state (\<lambda>s. ret (length (queued s)))"

definition clear_running :: "fs_condition \<Rightarrow> job_id \<Rightarrow> unit act" where
  "clear_running fs jid =
     and_then load_state (\<lambda>s.
       case running s jid of
         None \<Rightarrow> ret ()
       | Some info \<Rightarrow> save_state fs (s\<lparr>running := (running s)(jid := None)\<rparr>))"

section \<open>Configuration\<close>

text \<open>
  The values read from the configuration file by \<open>JobManager\<close>, \<open>Notifier\<close>,
  \<open>XYZFileHandler\<close> and \<open>ORCAPipeline\<close>. \<open>getint\<close> gives Python integers, which may
  be negative.
\<close>

record config =
  max_retries :: int
  enabled :: bool
  threshold :: int
  interval :: int
  input_dir :: string
  waiting_dir :: string
  products_dir :: string
  max_parallel :: int

section \<open>Strings\<close>

text \<open>Python's \<open>p in s\<close> on strings: \<open>p\<close> occurs in \<open>s\<close> as a contiguous run.\<close>

fun starts_with :: "string \<Rightarrow> string \<Rightarrow> bool" where
  "starts_with [] s = True"
| "starts_with (p # ps) [] = False"
| "starts_with (p # ps) (c # cs) = (p = c \<and> starts_with ps cs)"

fun contains :: "string \<Rightarrow> string \<Rightarrow> bool" where
  "contains p [] = (p = [])"
| "contains p (c # cs) = (starts_with p (c # cs) \<or> contains p cs)"

text \<open>\<open>str.lower()\<close> on the ASCII letters; other characters are kept.\<close>

definition lower_char :: "char \<Rightarrow> char" where
  "lower_char c =
     (case map_of (zip ''ABCDEFGHIJKLMNOPQRSTUVWXYZ'' ''abcdefghijklmnopqrstuvwxyz'') c of
        Some l \<Rightarrow> l
      | None \<Rightarrow> c)"

definition lower :: "string \<Rightarrow> string" where
  "lower s = map lower_char s"

text \<open>\<open>str(n)\<close> for a non-negative integer: its decimal digits.\<close>

definition digit_char :: "nat \<Rightarrow> char" where
  "digit_char d = ''0123456789'' ! d"

fun str_nat :: "nat \<Rightarrow> string" where
  "str_nat n = (if n < 10 then [digit_char n] else str_nat (n div 10) @ [digit_char (n mod 10)])"

declare str_nat.simps [simp del]

definition str_int :: "int \<Rightarrow> string" where
  "str_int i = (if i < 0 then ''-'' @ str_nat (nat (- i)) else str_nat (nat i))"



section \<open>Interpreting the engine's output (orca\_output\_utils.py)\<close>

text \<open>
  What \<open>find_output_file\<close> and the read in \<open>parse_orca_output\<close> meet: no file under any
  of the three names, a file that cannot be read (with the exception text), or the
  content of the file.
\<close>

datatype artifact = No_output | Unreadable string | Content string

text \<open>
  The dictionary returned by \<open>parse_orca_output\<close>; \<open>error\<close> and \<open>error_type\<close> are absent
  in the success dictionary. The dictionary built by the exception handler of
  \<open>_execute_job\<close> has no key \<open>success\<close>; nothing reads that key from it.
\<close>

record verdict =
  success :: bool
  error :: "string option"
  error_type :: "string option"

definition recoverable_patterns :: "string list" where
  "recoverable_patterns =
     [''scf not converged'', ''convergence failure'', ''geometry optimization failed'']"

definition fatal_patterns :: "string list" where
  "fatal_patterns =
     [''segmentation fault'', ''memory allocation'', ''basis set not found'', ''invalid input'']"

definition classify_error :: "string \<Rightarrow> string" where
  "classify_error error_msg =
     (let error_lower = lower error_msg in
      if list_ex (\<lambda>pattern. contains pattern error_lower) recoverable_patterns
      then ''recoverable''
      else if list_ex (\<lambda>pattern. contains pattern error_lower) fatal_patterns
      then ''fatal''
      else ''incomplete'')"

text \<open>
  \<open>parse_orca_output\<close>. The regular-expression search of \<open>extract_error_message\<close> is
  the parameter \<open>extractor\<close>: every property below holds for whatever text it returns.
\<close>

definition parse_orca_output :: "(string \<Rightarrow> string) \<Rightarrow> artifact \<Rightarrow> verdict" where
  "parse_orca_output extractor a =
     (case a of
        No_output \<Rightarrow>
          \<lparr>success = False, error = Some ''Output file not found'', error_type = Some ''fatal''\<rparr>
      | Unreadable e \<Rightarrow>
          \<lparr>success = False, error = Some (''Cannot read output file: '' @ e),
           error_type = Some ''fatal''\<rparr>
      | Content content \<Rightarrow>
          if contains ''****ORCA TERMINATED NORMALLY****'' content
          then \<lparr>success = True, error = None, error_type = None\<rparr>
          else if contains ''ORCA finished by error termination'' content
          then \<lparr>success = False, error = Some (extractor content),
                error_type = Some (classify_error (extractor content))\<rparr>
          else \<lparr>success = False, error = Some ''Calculation did not complete'',
                error_type = Some ''incomplete''\<rparr>)"

section \<open>Notifier (orca\_notifier.py)\<close>

text \<open>
  Time is counted in microseconds, the resolution of \<open>datetime\<close>;
  \<open>timedelta(minutes=n)\<close> is \<open>n\<close> times sixty million of them.
\<close>

definition minutes :: "int \<Rightarrow> int" where
  "minutes n = n * 60000000"

text \<open>\<open>should_notify\<close>, with the clock reading \<open>now\<close> of its \<open>datetime.now()\<close>.\<close>

definition should_notify :: "config \<Rightarrow> int \<Rightarrow> world \<Rightarrow> bool" where
  "should_notify cfg now w =
     (if \<not> enabled cfg then False
      else if int (completion_count w) < threshold cfg then False
      else case last_notification w of
             None \<Rightarrow> True
           | Some t \<Rightarrow> now - t > minutes (interval cfg))"

text \<open>
  \<open>send_email\<close>: \<open>smtp\<close> tells whether the SMTP exchange goes through; when it raises,
  the exception is caught, logged, and False returned.
\<close>

definition send_email :: "config \<Rightarrow> bool \<Rightarrow> string \<Rightarrow> bool act" where
  "send_email cfg smtp subject =
     (if \<not> enabled cfg then ret False
      else if smtp then
        and_then (\<lambda>w. (Inr (), w\<lparr>outbox := outbox w @ [''ORCA Pipeline: '' @ subject]\<rparr>)) (\<lambda>_.
        and_then (log_msg INFO (''Email sent: '' @ subject)) (\<lambda>_. ret True))
      else and_then (log_msg ERROR ''Failed to send email'') (\<lambda>_. ret False))"

text \<open>
  \<open>notify_completion\<close>: \<open>now\<close> is the clock read by \<open>should_notify\<close>, \<open>sent_at\<close> the
  clock read after the mail was sent.
\<close>

definition notify_completion :: "config \<Rightarrow> int \<Rightarrow> int \<Rightarrow> bool \<Rightarrow> job_id \<Rightarrow> string \<Rightarrow> unit act" where
  "notify_completion cfg now sent_at smtp jid molecule =
     and_then (\<lambda>w. (Inr (), w\<lparr>completion_count := completion_count w + 1\<rparr>)) (\<lambda>_ w.
       if should_notify cfg now w then
         and_then (send_email cfg smtp (str_nat (completion_count w) @ '' calculations completed''))
           (\<lambda>sent. if sent
                    then (\<lambda>w'. (Inr (), w'\<lparr>last_notification := Some sent_at, completion_count := 0\<rparr>))
                    else ret ()) w
       else ret () w)"

definition notify_error :: "config \<Rightarrow> bool \<Rightarrow> job_id \<Rightarrow> string \<Rightarrow> string \<Rightarrow> unit act" where
  "notify_error cfg smtp jid molecule error_msg =
     and_then (send_email cfg smtp (''Calculation failed: '' @ molecule)) (\<lambda>_. ret ())"

section \<open>Intake (orca\_main.py)\<close>

type_synonym atom = "string \<times> int \<times> int \<times> int"

text \<open>
  An atom is its element and three coordinates; the coordinates are only carried from the
  parser to the files, so they are kept as integers (in units of the last printed digit).
  Creating a file is recorded by directory and name.
\<close>

definition write_file :: "bool \<Rightarrow> string \<Rightarrow> string \<Rightarrow> unit act" where
  "write_file ok dir name =
     (if ok then (\<lambda>w. (Inr (), w\<lparr>created := created w @ [(dir, name)]\<rparr>))
      else throw (Exn ''OSError''))"




text \<open>
  The observer is scheduled on \<open>input_dir\<close>, not recursively: \<open>on_created\<close> is called for
  the files created in that directory, and acts on those whose suffix is \<open>.xyz\<close>.
\<close>

definition ends_with :: "string \<Rightarrow> string \<Rightarrow> bool" where
  "ends_with sfx s = starts_with (rev sfx) (rev s)"

definition observed :: "config \<Rightarrow> (string \<times> string) list \<Rightarrow> (string \<times> string) list" where
  "observed cfg fls =
     filter (\<lambda>(dir, name). dir = input_dir cfg \<and> ends_with ''.xyz'' (lower name)) fls"

section \<open>Job manager (orca\_job\_manager.py)\<close>

text \<open>
  What the environment does during one call of \<open>_execute_job\<close>: whether the working
  directory can be created and the input copied into it; how \<open>subprocess.run\<close> ends;
  the artifact found afterwards; what \<open>extract_final_geometry\<close> returns; how
  \<open>create_energy_plot\<close> ends; whether the archive directory, the copies into it and the
  error record can be written; whether the chained geometry file can be written; whether
  the waiting files and the working directory can be removed; the state of the file
  system under the state document (the same for every write of the attempt); the two
  clock readings of the notifier and whether SMTP goes through.

  Log lines keep their fixed text, the job id and the molecule name; commands, paths and
  exception texts that come from the operating system are left out of them. In
  \<open>_handle_success\<close> the artifact has been read, so \<open>if output_file\<close> holds and
  \<open>create_energy_plot\<close> is called.
\<close>

datatype engine = Exited | Timeout_expired string | Launch_failed string

datatype plot_outcome = No_energies | Plot_saved | Plot_failed

record attempt =
  mkdir_ok :: bool
  copy_ok :: bool
  engine_run :: engine
  found :: artifact
  final_geom :: "atom list option"
  plot :: plot_outcome
  archive_ok :: bool
  chain_write_ok :: bool
  cleanup_ok :: bool
  rmtree_ok :: bool
  disk :: fs_condition
  clock :: int
  clock_sent :: int
  smtp_ok :: bool

definition exn_text :: "exn \<Rightarrow> string" where
  "exn_text e = (case e of Exn m \<Rightarrow> m)"

definition run_orca :: "attempt \<Rightarrow> unit act" where
  "run_orca env =
     and_then (log_msg INFO ''Running ORCA'') (\<lambda>_.
       case engine_run env of
         Exited \<Rightarrow> ret ()
       | Timeout_expired m \<Rightarrow> throw (Exn m)
       | Launch_failed m \<Rightarrow> throw (Exn m))"

definition find_output_file :: "attempt \<Rightarrow> artifact act" where
  "find_output_file env =
     (case found env of
        No_output \<Rightarrow> and_then (log_msg WARNING ''No output file found'') (\<lambda>_. ret No_output)
      | a \<Rightarrow> ret a)"

definition archive_results :: "attempt \<Rightarrow> unit act" where
  "archive_results env = (if archive_ok env then ret () else throw (Exn ''OSError''))"

definition create_energy_plot :: "attempt \<Rightarrow> unit act" where
  "create_energy_plot env =
     (case plot env of
        No_energies \<Rightarrow> log_msg WARNING ''No energy data found''
      | Plot_saved \<Rightarrow> log_msg INFO ''Energy plot saved''
      | Plot_failed \<Rightarrow> log_msg ERROR ''Failed to create energy plot'')"

definition cleanup_waiting_files :: "attempt \<Rightarrow> job_info \<Rightarrow> unit act" where
  "cleanup_waiting_files env info =
     (if cleanup_ok env then log_msg INFO (''Cleaned up waiting files for '' @ molecule_name info)
      else log_msg WARNING ''Failed to cleanup waiting files'')"

definition remove_work_dir :: "attempt \<Rightarrow> unit act" where
  "remove_work_dir env =
     (if rmtree_ok env then ret () else log_msg WARNING ''Failed to cleanup working directory'')"

text \<open>
  \<open>_chain_frequency_calculation\<close>: without a final geometry a warning is logged and
  nothing else happens; otherwise the file \<open>molecule_freq.xyz\<close> is written into
  \<open>waiting_dir\<close>. The state store is not called.
\<close>

definition chain_frequency_calculation :: "config \<Rightarrow> attempt \<Rightarrow> job_info \<Rightarrow> unit act" where
  "chain_frequency_calculation cfg env opt_job_info =
     (if final_geom env = None \<or> final_geom env = Some []
      then log_msg WARNING ''Cannot chain frequency calculation: no final geometry''
      else
        and_then (write_file (chain_write_ok env) (waiting_dir cfg)
                    (molecule_name opt_job_info @ ''_freq.xyz'')) (\<lambda>_.
        log_msg INFO (''Created frequency calculation for '' @ molecule_name opt_job_info)))"

definition handle_success :: "config \<Rightarrow> attempt \<Rightarrow> job_id \<Rightarrow> job_info \<Rightarrow> unit act" where
  "handle_success cfg env jid info =
     and_then (log_msg INFO (''Job '' @ jid @ '' completed successfully'')) (\<lambda>_.
     and_then (archive_results env) (\<lambda>_.
     and_then (create_energy_plot env) (\<lambda>_.
     and_then (mark_completed (disk env) jid
                 (products_dir cfg @ ''/success/'' @ molecule_name info)) (\<lambda>_.
     and_then (notify_completion cfg (clock env) (clock_sent env) (smtp_ok env) jid
                 (molecule_name info)) (\<lambda>_.
     and_then (if calc_type info = ''opt'' then chain_frequency_calculation cfg env info
               else ret ()) (\<lambda>_.
     and_then (cleanup_waiting_files env info) (\<lambda>_.
     remove_work_dir env)))))))"

definition handle_failure ::
    "config \<Rightarrow> attempt \<Rightarrow> job_id \<Rightarrow> job_info \<Rightarrow> verdict \<Rightarrow> nat \<Rightarrow> unit act" where
  "handle_failure cfg env jid info parse_result retry =
     (let etype = (case error_type parse_result of None \<Rightarrow> ''unknown'' | Some t \<Rightarrow> t);
          error_msg = (case error parse_result of None \<Rightarrow> ''Unknown error'' | Some m \<Rightarrow> m)
      in
      and_then (log_msg ERROR (''Job '' @ jid @ '' failed: '' @ error_msg @ '' (type: '' @ etype @ '')'')) (\<lambda>_.
      and_then
        (if etype = ''incomplete'' \<and> int retry < max_retries cfg then
           and_then (log_msg INFO (''Retrying job '' @ jid @ '' (attempt '' @ str_nat (retry + 1) @
                       ''/'' @ str_int (max_retries cfg) @ '')'')) (\<lambda>_.
           and_then (add_job (disk env) jid (info\<lparr>retry_count := retry + 1\<rparr>)) (\<lambda>_.
           clear_running (disk env) jid))
         else
           and_then (archive_results env) (\<lambda>_.
           and_then (write_file (archive_ok env)
                       (products_dir cfg @ ''/failed/'' @ molecule_name info) ''error.txt'') (\<lambda>_.
           and_then (mark_failed (disk env) jid error_msg) (\<lambda>_.
           and_then (notify_error cfg (smtp_ok env) jid (molecule_name info) error_msg) (\<lambda>_.
           cleanup_waiting_files env info))))) (\<lambda>_.
      remove_work_dir env)))"

text \<open>
  \<open>_execute_job\<close>. Creating the working directory and copying the input into it come
  before the \<open>try\<close>; the engine run, the search for the artifact, its interpretation and
  the two handlers are inside it.
\<close>

definition execute_job ::
    "config \<Rightarrow> (string \<Rightarrow> string) \<Rightarrow> attempt \<Rightarrow> job_id \<Rightarrow> job_info \<Rightarrow> unit act" where
  "execute_job cfg extractor env jid info =
     and_then (log_msg INFO (''Starting job '' @ jid @ '': '' @ molecule_name info @
                        '' ('' @ calc_type info @ '')'')) (\<lambda>_.
     and_then (if mkdir_ok env then ret () else throw (Exn ''OSError'')) (\<lambda>_.
     and_then (if copy_ok env then ret () else throw (Exn ''FileNotFoundError'')) (\<lambda>_.
     try_except
       (and_then (run_orca env) (\<lambda>_.
        and_then (find_output_file env) (\<lambda>output_file.
          let parse_result = parse_orca_output extractor output_file in
          if success parse_result then handle_success cfg env jid info
          else handle_failure cfg env jid info parse_result (retry_count info))))
       (\<lambda>e.
          and_then (log_msg ERROR (''Job '' @ jid @ '' crashed: '' @ exn_text e)) (\<lambda>_.
          handle_failure cfg env jid info
            \<lparr>success = False, error = Some (exn_text e), error_type = Some ''fatal''\<rparr>
            (retry_count info))))))"

text \<open>
  The pool threads. \<open>process_jobs\<close> submits \<open>_execute_job\<close> to a \<open>ThreadPoolExecutor\<close>, so
  the calls of one job are interleaved with those of the other jobs and of the control
  loop. What is left to do of one \<open>_execute_job\<close> is a value of type \<open>prog\<close>: it has
  returned, it has raised, it makes one more call (to the logger, the file system, the
  engine, the store or the notifier) and goes on, or it is inside the \<open>try\<close> with its
  handler. Each such call is one step: every store call holds the lock of the store for
  its whole body, and nothing that another thread does between two calls is excluded.
\<close>

datatype prog = Return | Raised exn | Atomic "unit act" prog | Try prog "exn \<Rightarrow> prog"

text \<open>
  One step of a thread. An exception of a call inside the \<open>try\<close> enters the handler;
  an exception outside of it (also one inside the handler) ends the thread.
\<close>

primrec step :: "prog \<Rightarrow> world \<Rightarrow> prog \<times> world" where
  "step Return w = (Return, w)"
| "step (Raised e) w = (Raised e, w)"
| "step (Atomic a k) w = (case a w of (Inl e, w') \<Rightarrow> (Raised e, w') | (Inr u, w') \<Rightarrow> (k, w'))"
| "step (Try p h) w =
     (case step p w of
        (Return, w') \<Rightarrow> (Return, w')
      | (Raised e, w') \<Rightarrow> (h e, w')
      | (Atomic a k, w') \<Rightarrow> (Try (Atomic a k) h, w')
      | (Try q g, w') \<Rightarrow> (Try (Try q g) h, w'))"

text \<open>A number of steps of a thread; and a thread that is left alone until it ends.\<close>

primrec steps :: "nat \<Rightarrow> prog \<Rightarrow> world \<Rightarrow> prog \<times> world" where
  "steps 0 p w = (p, w)"
| "steps (Suc n) p w = steps n (fst (step p w)) (snd (step p w))"

primrec run :: "prog \<Rightarrow> unit act" where
  "run Return = ret ()"
| "run (Raised e) = throw e"
| "run (Atomic a k) = and_then a (\<lambda>_. run k)"
| "run (Try p h) = try_except (run p) (\<lambda>e. run (h e))"

definition finished :: "prog \<Rightarrow> bool" where
  "finished p = (case p of Return \<Rightarrow> True | Raised e \<Rightarrow> True | Atomic a k \<Rightarrow> False
                 | Try q h \<Rightarrow> False)"

text \<open>
  \<open>_handle_success\<close>, \<open>_handle_failure\<close> and \<open>_execute_job\<close> call by call, in the order of
  the source. \<open>find_output_file\<close> returns the artifact \<open>found env\<close>.
\<close>

definition handle_success_steps :: "config \<Rightarrow> attempt \<Rightarrow> job_id \<Rightarrow> job_info \<Rightarrow> prog" where
  "handle_success_steps cfg env jid info =
     Atomic (log_msg INFO (''Job '' @ jid @ '' completed successfully''))
    (Atomic (archive_results env)
    (Atomic (create_energy_plot env)
    (Atomic (mark_completed (disk env) jid
               (products_dir cfg @ ''/success/'' @ molecule_name info))
    (Atomic (notify_completion cfg (clock env) (clock_sent env) (smtp_ok env) jid
               (molecule_name info))
    (Atomic (if calc_type info = ''opt'' then chain_frequency_calculation cfg env info
             else ret ())
    (Atomic (cleanup_waiting_files env info)
    (Atomic (remove_work_dir env) Return)))))))"

definition handle_failure_steps ::
    "config \<Rightarrow> attempt \<Rightarrow> job_id \<Rightarrow> job_info \<Rightarrow> verdict \<Rightarrow> nat \<Rightarrow> prog" where
  "handle_failure_steps cfg env jid info parse_result retry =
     (let etype = (case error_type parse_result of None \<Rightarrow> ''unknown'' | Some t \<Rightarrow> t);
          error_msg = (case error parse_result of None \<Rightarrow> ''Unknown error'' | Some m \<Rightarrow> m)
      in
      Atomic (log_msg ERROR (''Job '' @ jid @ '' failed: '' @ error_msg @ '' (type: '' @ etype @ '')''))
        (if etype = ''incomplete'' \<and> int retry < max_retries cfg then
           Atomic (log_msg INFO (''Retrying job '' @ jid @ '' (attempt '' @ str_nat (retry + 1) @
                     ''/'' @ str_int (max_retries cfg) @ '')''))
          (Atomic (add_job (disk env) jid (info\<lparr>retry_count := retry + 1\<rparr>))
          (Atomic (clear_running (disk env) jid)
          (Atomic (remove_work_dir env) Return)))
         else
           Atomic (archive_results env)
          (Atomic (write_file (archive_ok env)
                     (products_dir cfg @ ''/failed/'' @ molecule_name info) ''error.txt'')
          (Atomic (mark_failed (disk env) jid error_msg)
          (Atomic (notify_error cfg (smtp_ok env) jid (molecule_name info) error_msg)
          (Atomic (cleanup_waiting_files env info)
          (Atomic (remove_work_dir env) Return)))))))"

definition execute_job_steps ::
    "config \<Rightarrow> (string \<Rightarrow> string) \<Rightarrow> attempt \<Rightarrow> job_id \<Rightarrow> job_info \<Rightarrow> prog" where
  "execute_job_steps cfg extractor env jid info =
     Atomic (log_msg INFO (''Starting job '' @ jid @ '': '' @ molecule_name info @
                      '' ('' @ calc_type info @ '')''))
    (Atomic (if mkdir_ok env then ret () else throw (Exn ''OSError''))
    (Atomic (if copy_ok env then ret () else throw (Exn ''FileNotFoundError''))
    (Try
       (Atomic (run_orca env)
       (Atomic (and_then (find_output_file env) (\<lambda>output_file. ret ()))
          (let parse_result = parse_orca_output extractor (found env) in
           if success parse_result then handle_success_steps cfg env jid info
           else handle_failure_steps cfg env jid info parse_result (retry_count info))))
       (\<lambda>e.
          Atomic (log_msg ERROR (''Job '' @ jid @ '' crashed: '' @ exn_text e))
            (handle_failure_steps cfg env jid info
               \<lparr>success = False, error = Some (exn_text e), error_type = Some ''fatal''\<rparr>
               (retry_count info))))))"

text \<open>
  \<open>process_jobs\<close>, for a started manager (\<open>self.running\<close> holds, so the loop is left by
  its \<open>break\<close> only, with no future pending). \<open>futures\<close> is the list of the source, each
  future with what is left of its thread; the pool has \<open>max_parallel\<close> threads and the
  list never has more entries, so every future has a thread. The control loop stands
  either before its \<open>if len(futures) < self.max_parallel\<close> (\<open>Poll\<close>) or before the
  collection of the futures that are done (\<open>Reap\<close>).

  The interleaving is given by a schedule, the list of the threads in the order in which
  they make their next move: the control loop, or the thread of the future at a position
  of \<open>futures\<close> (a turn for a position that does not exist, or for a thread that has
  ended, changes nothing). \<open>envs\<close> gives the environment that an attempt meets, \<open>fs\<close>
  the file system under the writes of \<open>get_next_job\<close>.

  At \<open>Poll\<close>, with room in the pool, \<open>get_next_job\<close> is called: a job with a non-empty id
  is submitted; with no job (or an empty id) the loop is left when no future is pending;
  an exception of \<open>get_next_job\<close> leaves \<open>process_jobs\<close>. At \<open>Reap\<close> the futures that
  are done are removed, and the exception of one that raised is logged. \<open>None\<close> means
  that the schedule ended before the loop did.

  The thread of the observer is not among the threads: no job is queued from outside
  while \<open>process_jobs\<close> runs. With \<open>max_parallel\<close> at one, \<open>len(futures) < 1\<close> fails
  as long as a future is in the list, so \<open>get_next_job\<close> is called only with no future
  pending; with more than one thread it is also called while threads are at work.
\<close>

datatype turn = Control | Worker nat

datatype position = Poll | Reap

definition reap_log :: "prog \<Rightarrow> (level \<times> string) list" where
  "reap_log p = (case p of Raised e \<Rightarrow> [(ERROR, ''Job execution error: '' @ exn_text e)]
                 | Return \<Rightarrow> [] | Atomic a k \<Rightarrow> [] | Try q h \<Rightarrow> [])"

fun process_loop ::
    "config \<Rightarrow> (string \<Rightarrow> string) \<Rightarrow> (job_id \<Rightarrow> job_info \<Rightarrow> attempt) \<Rightarrow> fs_condition \<Rightarrow>
     turn list \<Rightarrow> position \<Rightarrow> prog list \<Rightarrow> world \<Rightarrow> ((exn + unit) \<times> world) option" where
  "process_loop cfg extractor envs fs [] pos futures w = None"
| "process_loop cfg extractor envs fs (Worker i # ts) pos futures w =
     (if i < length futures then
        process_loop cfg extractor envs fs ts pos
          (futures[i := fst (step (futures ! i) w)]) (snd (step (futures ! i) w))
      else process_loop cfg extractor envs fs ts pos futures w)"
| "process_loop cfg extractor envs fs (Control # ts) Poll futures w =
     (if int (length futures) < max_parallel cfg then
        (case get_next_job fs w of
           (Inl e, w') \<Rightarrow> Some (Inl e, w')
         | (Inr None, w') \<Rightarrow>
             if futures = [] then Some (Inr (), w')
             else process_loop cfg extractor envs fs ts Reap futures w'
         | (Inr (Some (jid, info)), w') \<Rightarrow>
             if jid \<noteq> [] then
               process_loop cfg extractor envs fs ts Reap
                 (futures @ [execute_job_steps cfg extractor (envs jid info) jid info]) w'
             else if futures = [] then Some (Inr (), w')
             else process_loop cfg extractor envs fs ts Reap futures w')
      else process_loop cfg extractor envs fs ts Reap futures w)"
| "process_loop cfg extractor envs fs (Control # ts) Reap futures w =
     process_loop cfg extractor envs fs ts Poll (filter (\<lambda>p. \<not> finished p) futures)
       (w\<lparr>logs := logs w @ concat (map reap_log futures)\<rparr>)"

definition process_jobs ::
    "config \<Rightarrow> (string \<Rightarrow> string) \<Rightarrow> (job_id \<Rightarrow> job_info \<Rightarrow> attempt) \<Rightarrow> fs_condition \<Rightarrow>
     turn list \<Rightarrow> world \<Rightarrow> ((exn + unit) \<times> world) option" where
  "process_jobs cfg extractor envs fs sched w =
     process_loop cfg extractor envs fs sched Poll [] w"

section \<open>Invariant of the state document\<close>




definition empty_state :: pipeline_state where
  "empty_state = \<lparr>queued = [], running = Map.empty, completed = [], failed = []\<rparr>"


section \<open>Sample values\<close>

text \<open>The configuration that is shipped with the code.\<close>

definition cfg0 :: config where
  "cfg0 = \<lparr>max_retries = 2, enabled = False, threshold = 5, interval = 60,
            input_dir = ''folders/input'', waiting_dir = ''folders/waiting'',
            products_dir = ''folders/products'', max_parallel = 5\<rparr>"

definition info0 :: job_info where
  "info0 = \<lparr>molecule_name = ''h2o'', xyz_file = ''folders/waiting/h2o.xyz'',
            inp_file = ''folders/waiting/h2o.inp'', calc_type = ''opt'', retry_count = 0\<rparr>"

definition world0 :: world where
  "world0 = \<lparr>doc = empty_state, logs = [], completion_count = 0, last_notification = None,
             outbox = [], created = []\<rparr>"

text \<open>An attempt in which the engine ends normally and everything around it works.\<close>

definition env0 :: attempt where
  "env0 = \<lparr>mkdir_ok = True, copy_ok = True, engine_run = Exited,
            found = Content ''****ORCA TERMINATED NORMALLY****'',
            final_geom = Some [(''O'', 0, 0, 0), (''H'', 0, 0, 96000000), (''H'', 93000000, 0, -24000000)],
            plot = Plot_saved, archive_ok = True, chain_write_ok = True, cleanup_ok = True,
            rmtree_ok = True, disk = Fs_ok, clock = 0, clock_sent = 0, smtp_ok = True\<rparr>"

definition world4 :: world where
  "world4 = world0\<lparr>completion_count := 4\<rparr>"

text \<open>
  The job \<open>h2o_opt_1700000000\<close> after the intake has queued it and the scheduler has taken
  it (\<open>world1\<close>), and after the retry sequence of \<open>_handle_failure\<close> (\<open>world2\<close>).
\<close>

definition world1 :: world where
  "world1 = snd (get_next_job Fs_ok (snd (add_job Fs_ok ''h2o_opt_1700000000'' info0 world0)))"


text \<open>An attempt in which the engine runs into the timeout.\<close>

definition env_timeout :: attempt where
  "env_timeout = env0\<lparr>engine_run := Timeout_expired ''Command timed out after 3600 seconds'',
                       found := No_output\<rparr>"

text \<open>The job \<open>h2o_opt_1700000000\<close> queued by the intake.\<close>

definition world_queued :: world where
  "world_queued = snd (add_job Fs_ok ''h2o_opt_1700000000'' info0 world0)"





text \<open>
  Schedules for one job. In \<open>in_turn n\<close> the control loop submits the job, the thread
  makes \<open>n\<close> moves, and the control loop collects the future and polls again. In
  \<open>schedule_race\<close> the first thread makes its ten moves and is collected, and the job,
  queued again, is submitted to a second thread; that thread has made eight moves, the
  last of them its \<open>add_job\<close>, when the control loop polls and submits the job to a
  third thread; then the second thread makes its last two moves, the first of them its
  \<open>clear_running\<close>, and the third thread makes its twelve.
\<close>

definition in_turn :: "nat \<Rightarrow> turn list" where
  "in_turn n = Control # replicate n (Worker 0) @ [Control, Control]"


section \<open>Basic facts about the store\<close>

lemmas act_defs = ret_def throw_def and_then_def try_except_def log_msg_def
  load_state_def save_state_def atomic_json_write_def

lemma add_job_present:
  "jid \<in> set (map fst (queued (doc w))) \<Longrightarrow> add_job fs jid info w = (Inr (), w)"
  by (simp add: add_job_def act_defs)

lemma add_job_absent:
  "jid \<notin> set (map fst (queued (doc w))) \<Longrightarrow>
   add_job Fs_ok jid info w =
     (Inr (), w\<lparr>doc := (doc w)\<lparr>queued := queued (doc w) @ [(jid, info)]\<rparr>,
               logs := logs w @ [(INFO, ''Added job to queue: '' @ jid)]\<rparr>)"
  by (simp add: add_job_def act_defs)

text \<open>
  C9. \<open>add_job\<close> is idempotent on the queue. When the job id is already queued the call
  returns with the world unchanged, whatever the file system does; when it is not queued
  and the write succeeds, the entry is appended at the tail of \<open>queued\<close> and nothing else
  of the document changes; a second \<open>add_job\<close> for the same id (with any info) after a
  first one leaves exactly what the first one left.
\<close>

theorem add_job_idempotent:
  "(jid \<in> set (map fst (queued (doc w))) \<longrightarrow> add_job fs jid info w = (Inr (), w)) \<and>
   (jid \<notin> set (map fst (queued (doc w))) \<longrightarrow>
      fst (add_job Fs_ok jid info w) = Inr () \<and>
      doc (snd (add_job Fs_ok jid info w)) =
        (doc w)\<lparr>queued := queued (doc w) @ [(jid, info)]\<rparr>) \<and>
   and_then (add_job Fs_ok jid info) (\<lambda>_. add_job fs' jid info') w = add_job Fs_ok jid info w"
proof (intro conjI impI)
  assume "jid \<in> set (map fst (queued (doc w)))"
  then show "add_job fs jid info w = (Inr (), w)" by (rule add_job_present)
next
  assume a: "jid \<notin> set (map fst (queued (doc w)))"
  show "fst (add_job Fs_ok jid info w) = Inr ()" using a by (simp add: add_job_absent)
  show "doc (snd (add_job Fs_ok jid info w)) = (doc w)\<lparr>queued := queued (doc w) @ [(jid, info)]\<rparr>"
    using a by (simp add: add_job_absent)
next
  show "and_then (add_job Fs_ok jid info) (\<lambda>_. add_job fs' jid info') w = add_job Fs_ok jid info w"
  proof (cases "jid \<in> set (map fst (queued (doc w)))")
    case True
    then show ?thesis by (simp add: and_then_def add_job_present)
  next
    case False
    then show ?thesis by (simp add: and_then_def add_job_absent add_job_present)
  qed
qed

theorem add_job_idempotent_witness:
  "queued (doc (snd (add_job Fs_ok ''h2o_opt_1700000000'' info0 world0))) =
     [(''h2o_opt_1700000000'', info0)] \<and>
   add_job Fs_write_fails ''h2o_opt_1700000000'' (info0\<lparr>retry_count := 1\<rparr>)
     (snd (add_job Fs_ok ''h2o_opt_1700000000'' info0 world0)) =
     (Inr (), snd (add_job Fs_ok ''h2o_opt_1700000000'' info0 world0))"
proof -
  have a: "''h2o_opt_1700000000'' \<notin> set (map fst (queued (doc world0)))"
    by (simp add: world0_def empty_state_def)
  have b: "''h2o_opt_1700000000'' \<in>
      set (map fst (queued (doc (snd (add_job Fs_ok ''h2o_opt_1700000000'' info0 world0)))))"
    using a by (simp add: add_job_absent)
  from add_job_idempotent [of "''h2o_opt_1700000000''" world0 Fs_ok info0] a
  have c: "doc (snd (add_job Fs_ok ''h2o_opt_1700000000'' info0 world0)) =
        (doc world0)\<lparr>queued := queued (doc world0) @ [(''h2o_opt_1700000000'', info0)]\<rparr>"
    by blast
  from add_job_idempotent [of "''h2o_opt_1700000000''"
      "snd (add_job Fs_ok ''h2o_opt_1700000000'' info0 world0)" Fs_write_fails
      "info0\<lparr>retry_count := 1\<rparr>"] b
  have d: "add_job Fs_write_fails ''h2o_opt_1700000000'' (info0\<lparr>retry_count := 1\<rparr>)
     (snd (add_job Fs_ok ''h2o_opt_1700000000'' info0 world0)) =
     (Inr (), snd (add_job Fs_ok ''h2o_opt_1700000000'' info0 world0))"
    by blast
  show ?thesis using c d by (simp add: world0_def empty_state_def)
qed

section \<open>Substring test\<close>

lemma starts_with_iff: "starts_with p s \<longleftrightarrow> (\<exists>b. s = p @ b)"
  by (induction p s rule: starts_with.induct) auto

lemma contains_iff: "contains p s \<longleftrightarrow> (\<exists>a b. s = a @ p @ b)"
proof (induction s)
  case Nil
  then show ?case by auto
next
  case (Cons c cs)
  show ?case
  proof
    assume "contains p (c # cs)"
    then consider "starts_with p (c # cs)" | "contains p cs" by auto
    then show "\<exists>a b. c # cs = a @ p @ b"
    proof cases
      case 1
      then obtain b where "c # cs = p @ b" using starts_with_iff by blast
      then have "c # cs = [] @ p @ b" by simp
      then show ?thesis by blast
    next
      case 2
      then obtain a b where "cs = a @ p @ b" using Cons.IH by blast
      then have "c # cs = (c # a) @ p @ b" by simp
      then show ?thesis by blast
    qed
  next
    assume "\<exists>a b. c # cs = a @ p @ b"
    then obtain a b where ab: "c # cs = a @ p @ b" by blast
    show "contains p (c # cs)"
    proof (cases a)
      case Nil
      then have "starts_with p (c # cs)" using ab starts_with_iff by auto
      then show ?thesis by simp
    next
      case (Cons x xs)
      then have "cs = xs @ p @ b" using ab by simp
      then have "contains p cs" using Cons.IH by blast
      then show ?thesis by simp
    qed
  qed
qed

section \<open>Classification of engine errors\<close>

text \<open>
  C10. An error message that contains none of the recoverable patterns and none of the
  fatal patterns (after lower-casing) is classified \<open>incomplete\<close>; and when it is the
  message extracted from an artifact that reports an error termination (and no normal
  termination), \<open>parse_orca_output\<close> returns a failure verdict with that message and the
  error type \<open>incomplete\<close>, the one type that \<open>_handle_failure\<close> retries.
\<close>

theorem unrecognized_error_incomplete:
  assumes "\<forall>p \<in> set recoverable_patterns. \<not> contains p (lower m)"
    and "\<forall>p \<in> set fatal_patterns. \<not> contains p (lower m)"
  shows "classify_error m = ''incomplete'' \<and>
         (\<not> contains ''****ORCA TERMINATED NORMALLY****'' content \<and>
          contains ''ORCA finished by error termination'' content \<and> extractor content = m \<longrightarrow>
          parse_orca_output extractor (Content content) =
            \<lparr>success = False, error = Some m, error_type = Some ''incomplete''\<rparr>)"
proof -
  have c: "classify_error m = ''incomplete''"
    using assms by (simp add: classify_error_def list_ex_iff)
  show ?thesis using c by (auto simp add: parse_orca_output_def)
qed

theorem unrecognized_error_incomplete_witness:
  "classify_error ''Unknown keyword FOO'' = ''incomplete'' \<and>
   parse_orca_output (\<lambda>c. ''Unknown keyword FOO'')
     (Content ''ORCA finished by error termination in GTOInt'') =
     \<lparr>success = False, error = Some ''Unknown keyword FOO'', error_type = Some ''incomplete''\<rparr>"
proof -
  have a: "\<forall>p \<in> set recoverable_patterns. \<not> contains p (lower ''Unknown keyword FOO'')"
    by (simp add: recoverable_patterns_def lower_def lower_char_def)
  have b: "\<forall>p \<in> set fatal_patterns. \<not> contains p (lower ''Unknown keyword FOO'')"
    by (simp add: fatal_patterns_def lower_def lower_char_def)
  have c: "\<not> contains ''****ORCA TERMINATED NORMALLY****''
             ''ORCA finished by error termination in GTOInt''"
    by simp
  have d: "contains ''ORCA finished by error termination''
             ''ORCA finished by error termination in GTOInt''"
    by simp
  note t = unrecognized_error_incomplete [OF a b,
      of "''ORCA finished by error termination in GTOInt''" "\<lambda>c. ''Unknown keyword FOO''"]
  from t have e: "classify_error ''Unknown keyword FOO'' = ''incomplete''" by (rule conjunct1)
  from t c d have f: "parse_orca_output (\<lambda>c. ''Unknown keyword FOO'')
     (Content ''ORCA finished by error termination in GTOInt'') =
     \<lparr>success = False, error = Some ''Unknown keyword FOO'', error_type = Some ''incomplete''\<rparr>"
    by (elim conjE impE) (intro conjI refl, assumption+)
  from e f show ?thesis by (rule conjI)
qed

section \<open>A failed write of the state document\<close>




section \<open>Completion alerts\<close>

text \<open>
  C7, as the code has it. A completion first increments the counter. With notifications
  enabled, a mail is attempted exactly when the incremented counter has reached the
  threshold and either no alert was sent before or more than the configured interval has
  passed since the last one; only when that mail is delivered is the counter reset to
  zero and the time of the last alert set. In every other case (notifications disabled,
  counter below the threshold, interval not yet over, or the mail not delivered) no alert
  is sent and the counter keeps its incremented value.
\<close>

theorem completion_alert_rule:
  "notify_completion cfg now sent_at smtp jid molecule w =
     (if enabled cfg \<and> threshold cfg \<le> int (completion_count w) + 1 \<and>
         (case last_notification w of None \<Rightarrow> True | Some t \<Rightarrow> minutes (interval cfg) < now - t)
      then
        if smtp
        then (Inr (), w\<lparr>completion_count := 0, last_notification := Some sent_at,
                        outbox := outbox w @ [''ORCA Pipeline: '' @ str_nat (completion_count w + 1) @
                                                '' calculations completed''],
                        logs := logs w @ [(INFO, ''Email sent: '' @ str_nat (completion_count w + 1) @
                                                 '' calculations completed'')]\<rparr>)
        else (Inr (), w\<lparr>completion_count := completion_count w + 1,
                        logs := logs w @ [(ERROR, ''Failed to send email'')]\<rparr>)
      else (Inr (), w\<lparr>completion_count := completion_count w + 1\<rparr>))"
  by (auto simp add: notify_completion_def should_notify_def send_email_def act_defs
      split: option.split)

theorem completion_alert_rule_witness:
  "notify_completion (cfg0\<lparr>enabled := True\<rparr>) 0 7 True ''h2o_opt_1700000000'' ''h2o'' world4 =
     (Inr (), world4\<lparr>completion_count := 0, last_notification := Some 7,
                     outbox := [''ORCA Pipeline: 5 calculations completed''],
                     logs := [(INFO, ''Email sent: 5 calculations completed'')]\<rparr>) \<and>
   notify_completion (cfg0\<lparr>enabled := True\<rparr>) 0 7 True ''h2o_opt_1700000000'' ''h2o'' world0 =
     (Inr (), world0\<lparr>completion_count := 1\<rparr>)"
  using completion_alert_rule [of "cfg0\<lparr>enabled := True\<rparr>" 0 7 True "''h2o_opt_1700000000''" "''h2o''" world4]
    completion_alert_rule [of "cfg0\<lparr>enabled := True\<rparr>" 0 7 True "''h2o_opt_1700000000''" "''h2o''" world0]
  by (simp add: cfg0_def world4_def world0_def str_nat.simps digit_char_def)

text \<open>
  C7, as stated, fails: under the shipped configuration (notifications disabled) the
  fifth completion reaches the threshold of five with no alert ever sent before, and
  yet no alert is sent and the counter stays at five.
\<close>

theorem completion_alert_counterexample:
  "threshold cfg0 \<le> int (completion_count (snd (notify_completion cfg0 0 0 True
       ''h2o_opt_1700000000'' ''h2o'' world4))) \<and>
   last_notification world4 = None \<and>
   outbox (snd (notify_completion cfg0 0 0 True ''h2o_opt_1700000000'' ''h2o'' world4)) = [] \<and>
   completion_count (snd (notify_completion cfg0 0 0 True ''h2o_opt_1700000000'' ''h2o'' world4)) = 5"
  by (simp add: notify_completion_def should_notify_def send_email_def act_defs cfg0_def
      world4_def world0_def)

section \<open>Queued and running\<close>






























lemma world1_eq:
  "world1 = world0\<lparr>doc := empty_state\<lparr>running := [''h2o_opt_1700000000'' \<mapsto> info0]\<rparr>,
                     logs := [(INFO, ''Added job to queue: h2o_opt_1700000000'')]\<rparr>"
  by (simp add: world1_def add_job_def get_next_job_def act_defs world0_def empty_state_def)




section \<open>Job ids\<close>













section \<open>The handlers of the job manager\<close>


lemma mark_failed_ok:
  "running (doc w) jid = Some ri \<Longrightarrow>
   mark_failed Fs_ok jid e w =
     (Inr (), w\<lparr>doc := (doc w)\<lparr>running := (running (doc w))(jid := None),
                                failed := failed (doc w) @ [(jid, ri, e)]\<rparr>,
               logs := logs w @ [(ERROR, ''Job failed: '' @ jid @ '' - '' @ e)]\<rparr>)"
  by (simp add: mark_failed_def act_defs)

lemma mark_completed_ok:
  "running (doc w) jid = Some ri \<Longrightarrow>
   mark_completed Fs_ok jid r w =
     (Inr (), w\<lparr>doc := (doc w)\<lparr>running := (running (doc w))(jid := None),
                                completed := completed (doc w) @ [(jid, ri, r)]\<rparr>,
               logs := logs w @ [(INFO, ''Job completed: '' @ jid)]\<rparr>)"
  by (simp add: mark_completed_def act_defs)



lemma handle_failure_final:
  assumes "\<not> (error_type v = Some ''incomplete'' \<and> int r < max_retries cfg)"
    and "archive_ok env" and "disk env = Fs_ok" and "running (doc w) jid = Some ri"
  shows "fst (handle_failure cfg env jid info v r w) = Inr () \<and>
         doc (snd (handle_failure cfg env jid info v r w)) =
          (doc w)\<lparr>running := (running (doc w))(jid := None),
                  failed := failed (doc w) @
                    [(jid, ri, case error v of None \<Rightarrow> ''Unknown error'' | Some m \<Rightarrow> m)]\<rparr>"
proof -
  have c: "(case error_type v of None \<Rightarrow> ''unknown'' | Some t \<Rightarrow> t) = ''incomplete'' \<longleftrightarrow>
           error_type v = Some ''incomplete''"
    by (cases "error_type v") auto
  have nc: "(error_type v = Some ''incomplete'' \<and> int r < max_retries cfg) = False"
    using assms(1) by simp
  show ?thesis
    by (simp add: handle_failure_def Let_def c nc assms(2,3,4) mark_failed_ok archive_results_def
        write_file_def notify_error_def send_email_def cleanup_waiting_files_def
        remove_work_dir_def and_then_def log_msg_def ret_def)
qed

section \<open>Executing a job\<close>

text \<open>
  When the working directory and the input are in place and \<open>subprocess.run\<close> raises,
  \<open>_execute_job\<close> is \<open>_handle_failure\<close> on a verdict of type \<open>fatal\<close> carrying the
  exception text; when the engine exits and the artifact is interpreted as a failure,
  it is \<open>_handle_failure\<close> on that verdict.
\<close>

lemma execute_job_raised:
  assumes "mkdir_ok env" and "copy_ok env"
    and "engine_run env = Timeout_expired m \<or> engine_run env = Launch_failed m"
  shows "execute_job cfg extractor env jid info w =
           handle_failure cfg env jid info
             \<lparr>success = False, error = Some m, error_type = Some ''fatal''\<rparr> (retry_count info)
             (w\<lparr>logs := logs w @
                 [(INFO, ''Starting job '' @ jid @ '': '' @ molecule_name info @
                         '' ('' @ calc_type info @ '')''),
                  (INFO, ''Running ORCA''),
                  (ERROR, ''Job '' @ jid @ '' crashed: '' @ m)]\<rparr>)"
  using assms
  by (auto simp add: execute_job_def run_orca_def exn_text_def and_then_def try_except_def
      log_msg_def ret_def throw_def)

lemma execute_job_failure_verdict:
  assumes "mkdir_ok env" and "copy_ok env" and "engine_run env = Exited"
    and "found env = Content c" and "\<not> success (parse_orca_output extractor (Content c))"
    and "fst (handle_failure cfg env jid info (parse_orca_output extractor (Content c))
                (retry_count info)
                (w\<lparr>logs := logs w @
                   [(INFO, ''Starting job '' @ jid @ '': '' @ molecule_name info @
                           '' ('' @ calc_type info @ '')''),
                    (INFO, ''Running ORCA'')]\<rparr>)) = Inr ()"
  shows "execute_job cfg extractor env jid info w =
           handle_failure cfg env jid info (parse_orca_output extractor (Content c))
             (retry_count info)
             (w\<lparr>logs := logs w @
                 [(INFO, ''Starting job '' @ jid @ '': '' @ molecule_name info @
                         '' ('' @ calc_type info @ '')''),
                  (INFO, ''Running ORCA'')]\<rparr>)"
proof -
  let ?w = "w\<lparr>logs := logs w @
                 [(INFO, ''Starting job '' @ jid @ '': '' @ molecule_name info @
                         '' ('' @ calc_type info @ '')''),
                  (INFO, ''Running ORCA'')]\<rparr>"
  let ?h = "handle_failure cfg env jid info (parse_orca_output extractor (Content c))
             (retry_count info) ?w"
  obtain r w' where h: "?h = (r, w')" by (cases ?h)
  with assms(6) have r: "r = Inr ()" by simp
  show ?thesis
    using assms(1-5) h r
    by (simp add: execute_job_def run_orca_def find_output_file_def and_then_def try_except_def
        log_msg_def ret_def Let_def)
qed

text \<open>
  C4. When the engine invocation exceeds the timeout (the working directory and the input
  being in place, the failure archive and the state document writable, the job running),
  the job is moved from \<open>running\<close> to \<open>failed\<close> with the timeout's text and the queue is
  left as it was, whatever its retry count and the configured maximum: it is not retried.
  An engine run that exits with an artifact interpreted as a \<open>fatal\<close> error leaves the
  same document, with its own message in place of the timeout's.
\<close>

theorem timeout_is_fatal:
  assumes "mkdir_ok env" and "copy_ok env" and "engine_run env = Timeout_expired m"
    and "archive_ok env" and "disk env = Fs_ok" and "running (doc w) jid = Some ri"
  shows "fst (execute_job cfg extractor env jid info w) = Inr () \<and>
         doc (snd (execute_job cfg extractor env jid info w)) =
           (doc w)\<lparr>running := (running (doc w))(jid := None),
                   failed := failed (doc w) @ [(jid, ri, m)]\<rparr> \<and>
         (parse_orca_output extractor (Content c) =
            \<lparr>success = False, error = Some m', error_type = Some ''fatal''\<rparr> \<longrightarrow>
          fst (execute_job cfg extractor (env\<lparr>engine_run := Exited, found := Content c\<rparr>)
                 jid info w) = Inr () \<and>
          doc (snd (execute_job cfg extractor (env\<lparr>engine_run := Exited, found := Content c\<rparr>)
                 jid info w)) =
            (doc w)\<lparr>running := (running (doc w))(jid := None),
                    failed := failed (doc w) @ [(jid, ri, m')]\<rparr>)"
proof -
  let ?st = "[(INFO, ''Starting job '' @ jid @ '': '' @ molecule_name info @
                    '' ('' @ calc_type info @ '')''), (INFO, ''Running ORCA'')]"
  let ?w1 = "w\<lparr>logs := logs w @ ?st @ [(ERROR, ''Job '' @ jid @ '' crashed: '' @ m)]\<rparr>"
  let ?v = "\<lparr>success = False, error = Some m, error_type = Some ''fatal''\<rparr>"
  have e: "execute_job cfg extractor env jid info w =
             handle_failure cfg env jid info ?v (retry_count info) ?w1"
    using execute_job_raised [of env m cfg extractor jid info w] assms(1-3) by simp
  have f: "fst (handle_failure cfg env jid info ?v (retry_count info) ?w1) = Inr () \<and>
           doc (snd (handle_failure cfg env jid info ?v (retry_count info) ?w1)) =
             (doc ?w1)\<lparr>running := (running (doc ?w1))(jid := None),
                       failed := failed (doc ?w1) @
                         [(jid, ri, case error ?v of None \<Rightarrow> ''Unknown error'' | Some m \<Rightarrow> m)]\<rparr>"
    by (rule handle_failure_final) (simp_all add: assms)
  have a: "fst (execute_job cfg extractor env jid info w) = Inr () \<and>
         doc (snd (execute_job cfg extractor env jid info w)) =
           (doc w)\<lparr>running := (running (doc w))(jid := None),
                   failed := failed (doc w) @ [(jid, ri, m)]\<rparr>"
    using e f by simp
  have b: "fst (execute_job cfg extractor (env\<lparr>engine_run := Exited, found := Content c\<rparr>)
                 jid info w) = Inr () \<and>
          doc (snd (execute_job cfg extractor (env\<lparr>engine_run := Exited, found := Content c\<rparr>)
                 jid info w)) =
            (doc w)\<lparr>running := (running (doc w))(jid := None),
                    failed := failed (doc w) @ [(jid, ri, m')]\<rparr>"
    if p: "parse_orca_output extractor (Content c) =
            \<lparr>success = False, error = Some m', error_type = Some ''fatal''\<rparr>"
  proof -
    let ?env = "env\<lparr>engine_run := Exited, found := Content c\<rparr>"
    let ?w2 = "w\<lparr>logs := logs w @ ?st\<rparr>"
    let ?p = "parse_orca_output extractor (Content c)"
    have g: "fst (handle_failure cfg ?env jid info ?p (retry_count info) ?w2) = Inr () \<and>
             doc (snd (handle_failure cfg ?env jid info ?p (retry_count info) ?w2)) =
               (doc ?w2)\<lparr>running := (running (doc ?w2))(jid := None),
                         failed := failed (doc ?w2) @
                           [(jid, ri, case error ?p of None \<Rightarrow> ''Unknown error'' | Some m \<Rightarrow> m)]\<rparr>"
      by (rule handle_failure_final) (simp_all add: assms p)
    have "execute_job cfg extractor ?env jid info w =
            handle_failure cfg ?env jid info ?p (retry_count info) ?w2"
      using execute_job_failure_verdict [of ?env c extractor cfg jid info w] g assms(1,2) p
      by simp
    then show ?thesis using g p by simp
  qed
  from a b show ?thesis by blast
qed

theorem timeout_is_fatal_witness:
  "running (doc world1) ''h2o_opt_1700000000'' = Some info0 \<and>
   int (retry_count info0) < max_retries cfg0 \<and>
   doc (snd (execute_job cfg0 (\<lambda>c. ''invalid input'') env_timeout ''h2o_opt_1700000000'' info0
               world1)) =
     empty_state\<lparr>failed := [(''h2o_opt_1700000000'', info0,
                               ''Command timed out after 3600 seconds'')]\<rparr> \<and>
   doc (snd (execute_job cfg0 (\<lambda>c. ''invalid input'')
               (env_timeout\<lparr>engine_run := Exited,
                             found := Content ''ORCA finished by error termination in GTOInt''\<rparr>)
               ''h2o_opt_1700000000'' info0 world1)) =
     empty_state\<lparr>failed := [(''h2o_opt_1700000000'', info0, ''invalid input'')]\<rparr>"
proof -
  have r: "running (doc world1) ''h2o_opt_1700000000'' = Some info0"
    by (simp add: world1_eq)
  have p: "parse_orca_output (\<lambda>c. ''invalid input'')
             (Content ''ORCA finished by error termination in GTOInt'') =
           \<lparr>success = False, error = Some ''invalid input'', error_type = Some ''fatal''\<rparr>"
    by (simp add: parse_orca_output_def classify_error_def lower_def lower_char_def
        recoverable_patterns_def fatal_patterns_def)
  have d: "(doc world1)\<lparr>running := (running (doc world1))(''h2o_opt_1700000000'' := None),
                         failed := failed (doc world1) @ [(''h2o_opt_1700000000'', info0, x)]\<rparr> =
           empty_state\<lparr>failed := [(''h2o_opt_1700000000'', info0, x)]\<rparr>" for x
    by (simp add: world1_eq empty_state_def)
  have c: "int (retry_count info0) < max_retries cfg0" by (simp add: info0_def cfg0_def)
  from timeout_is_fatal [where env = env_timeout
      and m = "''Command timed out after 3600 seconds''" and w = world1
      and jid = "''h2o_opt_1700000000''" and ri = info0 and extractor = "\<lambda>c. ''invalid input''"
      and c = "''ORCA finished by error termination in GTOInt''" and m' = "''invalid input''"
      and cfg = cfg0 and info = info0] r p
  show ?thesis by (simp add: env_timeout_def env0_def d c)
qed

section \<open>The pool threads\<close>








text \<open>
  A step leaves the outcome of the thread as it was; and every thread ends after a
  number of steps.
\<close>

lemma finished_step: "finished p \<Longrightarrow> step p w = (p, w)"
  by (cases p) (simp_all add: finished_def)

lemma finished_steps: "finished p \<Longrightarrow> steps n p w = (p, w)"
  by (induction n) (simp_all add: finished_step)

lemma finished_run:
  "finished p \<Longrightarrow> snd (run p w) = w \<and>
     reap_log p = (case fst (run p w) of
                     Inl e \<Rightarrow> [(ERROR, ''Job execution error: '' @ exn_text e)]
                   | Inr u \<Rightarrow> [])"
  by (cases p) (simp_all add: finished_def reap_log_def ret_def throw_def)

lemma unfinished_reap_log: "\<not> finished p \<Longrightarrow> reap_log p = []"
  by (cases p) (simp_all add: finished_def reap_log_def)

lemma run_step: "run (fst (step p w)) (snd (step p w)) = run p w"
proof (induction p arbitrary: w)
  case Return
  show ?case by simp
next
  case (Raised e)
  show ?case by simp
next
  case (Atomic a k)
  show ?case
    by (cases "a w") (auto simp add: and_then_def throw_def split: sum.splits)
next
  case (Try p h)
  obtain p' w' where s: "step p w = (p', w')" by (cases "step p w")
  with Try.IH(1) [of w] have r: "run p' w' = run p w" by simp
  show ?case
    using s r
    by (cases p') (auto simp add: try_except_def ret_def throw_def split: sum.splits prod.splits)
qed

lemma run_steps: "run (fst (steps n p w)) (snd (steps n p w)) = run p w"
  by (induction n arbitrary: p w) (simp_all add: run_step)

lemma steps_add: "steps (m + n) p w = steps n (fst (steps m p w)) (snd (steps m p w))"
  by (induction m arbitrary: p w) simp_all

lemma try_ends:
  "finished (fst (steps n p w)) \<Longrightarrow>
   \<exists>m. fst (steps m (Try p h) w) = Return \<or> (\<exists>e. fst (steps m (Try p h) w) = h e)"
proof (induction n arbitrary: p w)
  case 0
  then have "fst (steps (Suc 0) (Try p h) w) = Return \<or>
             (\<exists>e. fst (steps (Suc 0) (Try p h) w) = h e)"
    by (cases p) (auto simp add: finished_def)
  then show ?case by blast
next
  case (Suc n)
  obtain p' w' where s: "step p w = (p', w')" by (cases "step p w")
  show ?case
  proof (cases "finished p'")
    case True
    then have "fst (steps (Suc 0) (Try p h) w) = Return \<or>
               (\<exists>e. fst (steps (Suc 0) (Try p h) w) = h e)"
      using s by (cases p') (auto simp add: finished_def)
    then show ?thesis by blast
  next
    case False
    then have t: "step (Try p h) w = (Try p' h, w')"
      using s by (cases p') (auto simp add: finished_def)
    from Suc.prems s have "finished (fst (steps n p' w'))" by simp
    from Suc.IH [OF this] obtain m where
      "fst (steps m (Try p' h) w') = Return \<or> (\<exists>e. fst (steps m (Try p' h) w') = h e)"
      by blast
    then have "fst (steps (Suc m) (Try p h) w) = Return \<or>
               (\<exists>e. fst (steps (Suc m) (Try p h) w) = h e)"
      using t by simp
    then show ?thesis by blast
  qed
qed

lemma thread_ends: "\<exists>n. finished (fst (steps n p w))"
proof (induction p arbitrary: w)
  case Return
  show ?case by (rule exI [of _ 0]) (simp add: finished_def)
next
  case (Raised e)
  show ?case by (rule exI [of _ 0]) (simp add: finished_def)
next
  case (Atomic a k)
  obtain p' w' where s: "step (Atomic a k) w = (p', w')" by (cases "step (Atomic a k) w")
  then have "p' = k \<or> (\<exists>e. p' = Raised e)"
    by (cases "a w") (auto split: sum.splits)
  then have "\<exists>n. finished (fst (steps n p' w'))"
  proof
    assume "p' = k"
    then show ?thesis using Atomic.IH by simp
  next
    assume "\<exists>e. p' = Raised e"
    then show ?thesis by (auto simp add: finished_def intro: exI [of _ 0])
  qed
  then obtain n where "finished (fst (steps n p' w'))" by blast
  then have "finished (fst (steps (Suc n) (Atomic a k) w))" using s by simp
  then show ?case by blast
next
  case (Try p h)
  from Try.IH(1) obtain n where "finished (fst (steps n p w))" by blast
  from try_ends [OF this, of h] obtain m where
    m: "fst (steps m (Try p h) w) = Return \<or> (\<exists>e. fst (steps m (Try p h) w) = h e)"
    by blast
  then show ?case
  proof
    assume "fst (steps m (Try p h) w) = Return"
    then have "finished (fst (steps m (Try p h) w))" by (simp add: finished_def)
    then show ?thesis by blast
  next
    assume "\<exists>e. fst (steps m (Try p h) w) = h e"
    then obtain e where e: "fst (steps m (Try p h) w) = h e" by blast
    from Try.IH(2) [of "h e" "snd (steps m (Try p h) w)"] obtain k where
      "finished (fst (steps k (h e) (snd (steps m (Try p h) w))))"
      by (auto simp add: range_eqI)
    then have "finished (fst (steps (m + k) (Try p h) w))"
      by (simp add: steps_add e)
    then show ?thesis by blast
  qed
qed

lemma steps_after:
  assumes "finished (fst (steps k p w))" and "k \<le> n"
  shows "steps n p w = steps k p w"
proof -
  from assms(2) obtain m where n: "n = k + m" by (auto simp add: le_iff_add)
  show ?thesis
    using finished_steps [OF assms(1), of m "snd (steps k p w)"]
    by (simp add: n steps_add)
qed

lemma steps_all:
  assumes "finished (fst (steps k p w))" and "\<And>n. n \<le> k \<Longrightarrow> Q (steps n p w)"
  shows "Q (steps n p w)"
proof (cases "n \<le> k")
  case True
  then show ?thesis by (rule assms(2))
next
  case False
  then have "steps n p w = steps k p w" using steps_after [OF assms(1), of n] by simp
  then show ?thesis using assms(2) [of k] by simp
qed

text \<open>
  The control loop with one future, when the calls of \<open>get_next_job\<close> that fall into
  the life of the thread find nothing queued (or are not made, the pool having one
  thread): under every schedule the future is collected with the world that the thread
  leaves when it runs alone, or the schedule ends before. With no future, the next thing
  that happens is a call of \<open>get_next_job\<close>.
\<close>

lemma lone_worker:
  assumes "\<And>n. 1 < max_parallel cfg \<Longrightarrow> queued (doc (snd (steps n p w))) = []"
  shows "process_loop cfg extractor envs fs s pos [p] w = None \<or>
         (\<exists>s'. process_loop cfg extractor envs fs s pos [p] w =
                 process_loop cfg extractor envs fs s' Poll []
                   ((snd (run p w))\<lparr>logs := logs (snd (run p w)) @
                      (case fst (run p w) of
                         Inl e \<Rightarrow> [(ERROR, ''Job execution error: '' @ exn_text e)]
                       | Inr u \<Rightarrow> [])\<rparr>))"
  using assms
proof (induction s arbitrary: pos p w)
  case Nil
  show ?case by simp
next
  case (Cons t ts)
  show ?case
  proof (cases t)
    case (Worker i)
    show ?thesis
    proof (cases "i < 1")
      case True
      have q: "\<And>n. 1 < max_parallel cfg \<Longrightarrow>
                 queued (doc (snd (steps n (fst (step p w)) (snd (step p w))))) = []"
        using Cons.prems [of "Suc _"] by simp
      from Cons.IH [of "fst (step p w)" "snd (step p w)" pos, OF q]
      show ?thesis using True Worker by (simp add: run_step)
    next
      case False
      from Cons.IH [of p w pos, OF Cons.prems]
      show ?thesis using False Worker by simp
    qed
  next
    case Control
    show ?thesis
    proof (cases pos)
      case Poll
      have g: "1 < max_parallel cfg \<Longrightarrow> get_next_job fs w = (Inr None, w)"
        using Cons.prems [of 0]
        by (simp add: get_next_job_def load_state_def and_then_def ret_def)
      from Cons.IH [of p w Reap, OF Cons.prems]
      show ?thesis using Control Poll g by (cases "1 < max_parallel cfg") simp_all
    next
      case Reap
      show ?thesis
      proof (cases "finished p")
        case True
        then have "process_loop cfg extractor envs fs (t # ts) pos [p] w =
                   process_loop cfg extractor envs fs ts Poll []
                     ((snd (run p w))\<lparr>logs := logs (snd (run p w)) @
                        (case fst (run p w) of
                           Inl e \<Rightarrow> [(ERROR, ''Job execution error: '' @ exn_text e)]
                         | Inr u \<Rightarrow> [])\<rparr>)"
          using Control Reap finished_run [OF True, of w] by simp
        then show ?thesis by blast
      next
        case False
        from Cons.IH [of p w Poll, OF Cons.prems]
        show ?thesis using Control Reap False by (simp add: unfinished_reap_log)
      qed
    qed
  qed
qed

lemma idle_pool:
  "process_loop cfg extractor envs fs s pos [] w = None \<or>
   (\<exists>s'. process_loop cfg extractor envs fs s pos [] w =
      (case get_next_job fs w of
         (Inl e, w') \<Rightarrow> Some (Inl e, w')
       | (Inr None, w') \<Rightarrow> Some (Inr (), w')
       | (Inr (Some (jid, info)), w') \<Rightarrow>
           if jid \<noteq> [] then
             process_loop cfg extractor envs fs s' Reap
               [execute_job_steps cfg extractor (envs jid info) jid info] w'
           else Some (Inr (), w')))"
proof (induction s arbitrary: pos)
  case Nil
  show ?case by simp
next
  case (Cons t ts)
  show ?case
  proof (cases t)
    case (Worker i)
    with Cons.IH [of pos] show ?thesis by simp
  next
    case Control
    show ?thesis
    proof (cases pos)
      case Poll
      show ?thesis
      proof (cases "0 < max_parallel cfg")
        case True
        have "process_loop cfg extractor envs fs (t # ts) pos [] w =
          (case get_next_job fs w of
             (Inl e, w') \<Rightarrow> Some (Inl e, w')
           | (Inr None, w') \<Rightarrow> Some (Inr (), w')
           | (Inr (Some (jid, info)), w') \<Rightarrow>
               if jid \<noteq> [] then
                 process_loop cfg extractor envs fs ts Reap
                   [execute_job_steps cfg extractor (envs jid info) jid info] w'
               else Some (Inr (), w'))"
          using Control Poll True
          by (simp split: prod.splits sum.splits option.splits)
        then show ?thesis by blast
      next
        case False
        with Cons.IH [of Reap] show ?thesis using Control Poll by simp
      qed
    next
      case Reap
      with Cons.IH [of Poll] show ?thesis using Control by simp
    qed
  qed
qed

lemma worker_turns:
  "process_loop cfg extractor envs fs (replicate n (Worker 0) @ ts) pos [p] w =
   process_loop cfg extractor envs fs ts pos [fst (steps n p w)] (snd (steps n p w))"
  by (induction n arbitrary: p w) simp_all



lemma get_next_job_empty:
  "queued (doc w) = [] \<Longrightarrow> get_next_job fs w = (Inr None, w)"
  by (simp add: get_next_job_def load_state_def and_then_def ret_def)

lemma drained_all:
  assumes "queued (doc w) = []"
  shows "process_loop cfg extractor envs fs s pos [] w = None \<or>
         process_loop cfg extractor envs fs s pos [] w = Some (Inr (), w)"
  using idle_pool [of cfg extractor envs fs s pos w]
  by (auto simp add: get_next_job_empty [OF assms])




lemma single_job_all:
  assumes g: "get_next_job fs w = (Inr (Some (jid, info)), w1)" and ne: "jid \<noteq> []"
    and r: "run (execute_job_steps cfg extractor (envs jid info) jid info) w1 = (r, w2)"
    and q: "\<And>n. queued (doc (snd (steps n
               (execute_job_steps cfg extractor (envs jid info) jid info) w1))) = []"
  shows "process_loop cfg extractor envs fs s pos [] w = None \<or>
         process_loop cfg extractor envs fs s pos [] w =
           Some (Inr (), w2\<lparr>logs := logs w2 @
                   (case r of Inl e \<Rightarrow> [(ERROR, ''Job execution error: '' @ exn_text e)]
                    | Inr u \<Rightarrow> [])\<rparr>)"
proof -
  let ?p = "execute_job_steps cfg extractor (envs jid info) jid info"
  let ?w = "w2\<lparr>logs := logs w2 @
                   (case r of Inl e \<Rightarrow> [(ERROR, ''Job execution error: '' @ exn_text e)]
                    | Inr u \<Rightarrow> [])\<rparr>"
  from thread_ends [of ?p w1] obtain k where k: "finished (fst (steps k ?p w1))" by blast
  have "snd (run ?p w1) = snd (steps k ?p w1)"
    using finished_run [OF k, of "snd (steps k ?p w1)"] run_steps [of k ?p w1] by simp
  then have q2: "queued (doc ?w) = []" using r q [of k] by simp
  from idle_pool [of cfg extractor envs fs s pos w]
  consider "process_loop cfg extractor envs fs s pos [] w = None"
    | s' where "process_loop cfg extractor envs fs s pos [] w =
                process_loop cfg extractor envs fs s' Reap [?p] w1"
    using g ne by auto
  then show ?thesis
  proof cases
    case 1
    then show ?thesis by simp
  next
    case (2 s')
    from lone_worker [of cfg ?p w1 extractor envs fs s' Reap] q
    have "process_loop cfg extractor envs fs s' Reap [?p] w1 = None \<or>
          (\<exists>s''. process_loop cfg extractor envs fs s' Reap [?p] w1 =
                   process_loop cfg extractor envs fs s'' Poll [] ?w)"
      using r by simp
    then show ?thesis
      using 2 drained_all [OF q2, of cfg extractor envs fs _ Poll] by metis
  qed
qed

lemma in_turn_run:
  assumes m: "0 < max_parallel cfg"
    and g: "get_next_job fs w = (Inr (Some (jid, info)), w1)" and ne: "jid \<noteq> []"
    and s: "steps n (execute_job_steps cfg extractor (envs jid info) jid info) w1 = (p, w2)"
    and f: "finished p" and q: "queued (doc w2) = []"
  shows "process_jobs cfg extractor envs fs (in_turn n) w =
           Some (Inr (), w2\<lparr>logs := logs w2 @ reap_log p\<rparr>)"
proof -
  have "process_jobs cfg extractor envs fs (in_turn n) w =
        process_loop cfg extractor envs fs (replicate n (Worker 0) @ [Control, Control]) Reap
          [execute_job_steps cfg extractor (envs jid info) jid info] w1"
    using m g ne by (simp add: process_jobs_def in_turn_def del: replicate.simps)
  also have "\<dots> = process_loop cfg extractor envs fs [Control, Control] Reap [p] w2"
    using s by (simp add: worker_turns)
  also have "\<dots> = Some (Inr (), w2\<lparr>logs := logs w2 @ reap_log p\<rparr>)"
    using m f q by (simp add: get_next_job_empty)
  finally show ?thesis .
qed

text \<open>Rules to evaluate the steps of a thread on given values.\<close>

lemma all_le_Suc: "(\<forall>n\<le>Suc k. P n) = (P (Suc k) \<and> (\<forall>n\<le>k. P n))"
  by (auto simp add: le_Suc_eq)

lemma steps_num: "steps (numeral k) p w = steps (pred_numeral k) (fst (step p w)) (snd (step p w))"
  by (simp add: numeral_eq_Suc)

lemmas thread_defs = execute_job_steps_def handle_failure_steps_def handle_success_steps_def
  run_orca_def find_output_file_def parse_orca_output_def archive_results_def write_file_def
  notify_error_def send_email_def cleanup_waiting_files_def remove_work_dir_def
  add_job_def clear_running_def mark_failed_def mark_completed_def get_next_job_def
  act_defs Let_def exn_text_def str_nat.simps str_int_def digit_char_def

section \<open>Exceptions before the engine is started\<close>

text \<open>
  Creating the working directory and copying the input come before the \<open>try\<close> of
  \<open>_execute_job\<close>: an exception there leaves \<open>_execute_job\<close> with the document untouched.
\<close>

lemma execute_job_copy_fails:
  "mkdir_ok env \<Longrightarrow> \<not> copy_ok env \<Longrightarrow>
   execute_job cfg extractor env jid info w =
     (Inl (Exn ''FileNotFoundError''),
      w\<lparr>logs := logs w @ [(INFO, ''Starting job '' @ jid @ '': '' @ molecule_name info @
                                  '' ('' @ calc_type info @ '')'')]\<rparr>)"
  by (simp add: execute_job_def and_then_def log_msg_def ret_def throw_def)

lemma execute_job_mkdir_fails:
  "\<not> mkdir_ok env \<Longrightarrow>
   execute_job cfg extractor env jid info w =
     (Inl (Exn ''OSError''),
      w\<lparr>logs := logs w @ [(INFO, ''Starting job '' @ jid @ '': '' @ molecule_name info @
                                  '' ('' @ calc_type info @ '')'')]\<rparr>)"
  by (simp add: execute_job_def and_then_def log_msg_def ret_def throw_def)

lemma world_queued_eq:
  "world_queued = world0\<lparr>doc := empty_state\<lparr>queued := [(''h2o_opt_1700000000'', info0)]\<rparr>,
                     logs := [(INFO, ''Added job to queue: h2o_opt_1700000000'')]\<rparr>"
  by (simp add: world_queued_def add_job_def act_defs world0_def empty_state_def)

text \<open>
  C5 says that an exception in any of the steps from the creation of the working
  directory to the interpretation of the artifact ends with the job marked failed, and
  never ends the scheduler loop. Here the copy of the input file raises (the file is
  gone), under the shipped configuration: when the control loop submits the job, lets
  the thread make its three moves, collects the future and polls again, \<open>process_jobs\<close>
  logs the exception and ends normally, and the job stays in \<open>running\<close>; nothing is
  appended to \<open>failed\<close>. Every other schedule under which \<open>process_jobs\<close> ends leaves the
  same world.
\<close>

theorem copy_failure_leaves_job_running:
  "process_jobs cfg0 (\<lambda>c. c) (\<lambda>jid info. env0\<lparr>copy_ok := False\<rparr>) Fs_ok (in_turn 3) world_queued =
     Some (Inr (),
       world0\<lparr>doc := empty_state\<lparr>running := [''h2o_opt_1700000000'' \<mapsto> info0]\<rparr>,
              logs := [(INFO, ''Added job to queue: h2o_opt_1700000000''),
                       (INFO, ''Starting job h2o_opt_1700000000: h2o (opt)''),
                       (ERROR, ''Job execution error: FileNotFoundError'')]\<rparr>) \<and>
   (\<forall>sched.
      process_jobs cfg0 (\<lambda>c. c) (\<lambda>jid info. env0\<lparr>copy_ok := False\<rparr>) Fs_ok sched world_queued =
        None \<or>
      process_jobs cfg0 (\<lambda>c. c) (\<lambda>jid info. env0\<lparr>copy_ok := False\<rparr>) Fs_ok sched world_queued =
        Some (Inr (),
          world0\<lparr>doc := empty_state\<lparr>running := [''h2o_opt_1700000000'' \<mapsto> info0]\<rparr>,
                 logs := [(INFO, ''Added job to queue: h2o_opt_1700000000''),
                          (INFO, ''Starting job h2o_opt_1700000000: h2o (opt)''),
                          (ERROR, ''Job execution error: FileNotFoundError'')]\<rparr>))"
proof -
  let ?env = "env0\<lparr>copy_ok := False\<rparr>"
  let ?P = "execute_job_steps cfg0 (\<lambda>c. c) ?env ''h2o_opt_1700000000'' info0"
  let ?w2 = "world0\<lparr>doc := empty_state\<lparr>running := [''h2o_opt_1700000000'' \<mapsto> info0]\<rparr>,
              logs := [(INFO, ''Added job to queue: h2o_opt_1700000000''),
                       (INFO, ''Starting job h2o_opt_1700000000: h2o (opt)'')]\<rparr>"
  let ?W = "world0\<lparr>doc := empty_state\<lparr>running := [''h2o_opt_1700000000'' \<mapsto> info0]\<rparr>,
              logs := [(INFO, ''Added job to queue: h2o_opt_1700000000''),
                       (INFO, ''Starting job h2o_opt_1700000000: h2o (opt)''),
                       (ERROR, ''Job execution error: FileNotFoundError'')]\<rparr>"
  have m: "0 < max_parallel cfg0" by (simp add: cfg0_def)
  have g: "get_next_job Fs_ok world_queued = (Inr (Some (''h2o_opt_1700000000'', info0)), world1)"
    by (simp add: world_queued_eq world1_eq get_next_job_def act_defs world0_def empty_state_def)
  have s: "steps 3 ?P world1 = (Raised (Exn ''FileNotFoundError''), ?w2)"
    by (simp add: steps_num thread_defs world1_eq world0_def empty_state_def info0_def env0_def)
  have f: "finished (fst (steps 3 ?P world1))" by (simp add: s finished_def)
  have r: "run ?P world1 = (Inl (Exn ''FileNotFoundError''), ?w2)"
    using run_steps [of 3 ?P world1] by (simp add: s throw_def)
  have q: "queued (doc (snd (steps n ?P world1))) = []" for n
  proof (rule steps_all [OF f])
    have "\<forall>n\<le>3. queued (doc (snd (steps n ?P world1))) = []"
      by (simp add: eval_nat_numeral all_le_Suc thread_defs world1_eq world0_def empty_state_def
          info0_def env0_def)
    then show "\<And>n. n \<le> 3 \<Longrightarrow> queued (doc (snd (steps n ?P world1))) = []"
      by blast
  qed
  have a: "process_jobs cfg0 (\<lambda>c. c) (\<lambda>jid info. ?env) Fs_ok (in_turn 3) world_queued =
             Some (Inr (), ?W)"
    using in_turn_run [where envs = "\<lambda>jid info. ?env", OF m g _ s]
    by (simp add: finished_def reap_log_def exn_text_def empty_state_def)
  have b: "process_jobs cfg0 (\<lambda>c. c) (\<lambda>jid info. ?env) Fs_ok sched world_queued = None \<or>
           process_jobs cfg0 (\<lambda>c. c) (\<lambda>jid info. ?env) Fs_ok sched world_queued =
             Some (Inr (), ?W)" for sched
    using single_job_all [where envs = "\<lambda>jid info. ?env" and s = sched and pos = Poll
        and cfg = cfg0 and extractor = "\<lambda>c. c", OF g _ r q]
    by (simp add: process_jobs_def exn_text_def)
  from a b show ?thesis by blast
qed

section \<open>Chaining the frequency calculation\<close>

text \<open>
  \<open>_chain_frequency_calculation\<close> never touches the state document; without a final
  geometry it logs one warning and does nothing else.
\<close>

lemma chain_without_geometry:
  "final_geom env = None \<or> final_geom env = Some [] \<Longrightarrow>
   chain_frequency_calculation cfg env info w =
     (Inr (), w\<lparr>logs := logs w @
        [(WARNING, ''Cannot chain frequency calculation: no final geometry'')]\<rparr>)"
  by (auto simp add: chain_frequency_calculation_def log_msg_def)

lemma chain_leaves_document:
  "doc (snd (chain_frequency_calculation cfg env info w)) = doc w"
  by (simp add: chain_frequency_calculation_def write_file_def act_defs)

lemma handle_success_sample:
  "handle_success cfg0 env0 ''h2o_opt_1700000000'' info0
     (world1\<lparr>logs := logs world1 @ [(INFO, ''Starting job h2o_opt_1700000000: h2o (opt)''),
                                      (INFO, ''Running ORCA'')]\<rparr>) =
   (Inr (),
    world0\<lparr>doc := empty_state\<lparr>completed :=
               [(''h2o_opt_1700000000'', info0, ''folders/products/success/h2o'')]\<rparr>,
           logs := [(INFO, ''Added job to queue: h2o_opt_1700000000''),
                    (INFO, ''Starting job h2o_opt_1700000000: h2o (opt)''),
                    (INFO, ''Running ORCA''),
                    (INFO, ''Job h2o_opt_1700000000 completed successfully''),
                    (INFO, ''Energy plot saved''),
                    (INFO, ''Job completed: h2o_opt_1700000000''),
                    (INFO, ''Created frequency calculation for h2o''),
                    (INFO, ''Cleaned up waiting files for h2o'')],
           completion_count := 1,
           created := [(''folders/waiting'', ''h2o_freq.xyz'')]\<rparr>)"
  by (simp add: handle_success_def archive_results_def create_energy_plot_def env0_def
      info0_def cfg0_def world1_eq mark_completed_def notify_completion_def should_notify_def
      chain_frequency_calculation_def write_file_def cleanup_waiting_files_def
      remove_work_dir_def act_defs world0_def empty_state_def)

text \<open>
  C3 says that a successful optimization whose final geometry can be extracted leaves
  exactly one new frequency job queued in the state store. Here the job
  \<open>h2o_opt_1700000000\<close> succeeds under the shipped configuration and its final geometry
  is extracted: the job is completed, the file \<open>h2o_freq.xyz\<close> is written into
  \<open>folders/waiting\<close>, the queue is empty when \<open>process_jobs\<close> ends (under the schedule
  that lets the thread make its thirteen moves in one go, and under every other schedule
  under which \<open>process_jobs\<close> ends), and the observer, which watches \<open>folders/input\<close>,
  is not called for that file. No frequency job is queued.
\<close>

theorem chained_job_never_queued:
  "process_jobs cfg0 (\<lambda>c. c) (\<lambda>jid info. env0) Fs_ok (in_turn 13) world_queued =
     Some (Inr (),
       world0\<lparr>doc := empty_state\<lparr>completed :=
                  [(''h2o_opt_1700000000'', info0, ''folders/products/success/h2o'')]\<rparr>,
              logs := [(INFO, ''Added job to queue: h2o_opt_1700000000''),
                       (INFO, ''Starting job h2o_opt_1700000000: h2o (opt)''),
                       (INFO, ''Running ORCA''),
                       (INFO, ''Job h2o_opt_1700000000 completed successfully''),
                       (INFO, ''Energy plot saved''),
                       (INFO, ''Job completed: h2o_opt_1700000000''),
                       (INFO, ''Created frequency calculation for h2o''),
                       (INFO, ''Cleaned up waiting files for h2o'')],
              completion_count := 1,
              created := [(''folders/waiting'', ''h2o_freq.xyz'')]\<rparr>) \<and>
   (\<forall>sched.
      process_jobs cfg0 (\<lambda>c. c) (\<lambda>jid info. env0) Fs_ok sched world_queued = None \<or>
      process_jobs cfg0 (\<lambda>c. c) (\<lambda>jid info. env0) Fs_ok sched world_queued =
        Some (Inr (),
          world0\<lparr>doc := empty_state\<lparr>completed :=
                     [(''h2o_opt_1700000000'', info0, ''folders/products/success/h2o'')]\<rparr>,
                 logs := [(INFO, ''Added job to queue: h2o_opt_1700000000''),
                          (INFO, ''Starting job h2o_opt_1700000000: h2o (opt)''),
                          (INFO, ''Running ORCA''),
                          (INFO, ''Job h2o_opt_1700000000 completed successfully''),
                          (INFO, ''Energy plot saved''),
                          (INFO, ''Job completed: h2o_opt_1700000000''),
                          (INFO, ''Created frequency calculation for h2o''),
                          (INFO, ''Cleaned up waiting files for h2o'')],
                 completion_count := 1,
                 created := [(''folders/waiting'', ''h2o_freq.xyz'')]\<rparr>)) \<and>
   final_geom env0 \<noteq> None \<and> final_geom env0 \<noteq> Some [] \<and>
   observed cfg0 [(''folders/waiting'', ''h2o_freq.xyz'')] = []"
proof -
  let ?P = "execute_job_steps cfg0 (\<lambda>c. c) env0 ''h2o_opt_1700000000'' info0"
  let ?W = "world0\<lparr>doc := empty_state\<lparr>completed :=
                  [(''h2o_opt_1700000000'', info0, ''folders/products/success/h2o'')]\<rparr>,
              logs := [(INFO, ''Added job to queue: h2o_opt_1700000000''),
                       (INFO, ''Starting job h2o_opt_1700000000: h2o (opt)''),
                       (INFO, ''Running ORCA''),
                       (INFO, ''Job h2o_opt_1700000000 completed successfully''),
                       (INFO, ''Energy plot saved''),
                       (INFO, ''Job completed: h2o_opt_1700000000''),
                       (INFO, ''Created frequency calculation for h2o''),
                       (INFO, ''Cleaned up waiting files for h2o'')],
              completion_count := 1,
              created := [(''folders/waiting'', ''h2o_freq.xyz'')]\<rparr>"
  have m: "0 < max_parallel cfg0" by (simp add: cfg0_def)
  have g: "get_next_job Fs_ok world_queued = (Inr (Some (''h2o_opt_1700000000'', info0)), world1)"
    by (simp add: world_queued_eq world1_eq get_next_job_def act_defs world0_def empty_state_def)
  have s: "steps 13 ?P world1 = (Return, ?W)"
    by (simp add: steps_num thread_defs world1_eq world0_def empty_state_def info0_def env0_def
        cfg0_def create_energy_plot_def notify_completion_def should_notify_def
        chain_frequency_calculation_def)
  have f: "finished (fst (steps 13 ?P world1))" by (simp add: s finished_def)
  have r: "run ?P world1 = (Inr (), ?W)"
    using run_steps [of 13 ?P world1] by (simp add: s ret_def)
  have q: "queued (doc (snd (steps n ?P world1))) = []" for n
  proof (rule steps_all [OF f])
    have "\<forall>n\<le>13. queued (doc (snd (steps n ?P world1))) = []"
      by (simp add: eval_nat_numeral all_le_Suc thread_defs world1_eq world0_def empty_state_def
          info0_def env0_def cfg0_def create_energy_plot_def notify_completion_def
          should_notify_def chain_frequency_calculation_def)
    then show "\<And>n. n \<le> 13 \<Longrightarrow> queued (doc (snd (steps n ?P world1))) = []"
      by blast
  qed
  have a: "process_jobs cfg0 (\<lambda>c. c) (\<lambda>jid info. env0) Fs_ok (in_turn 13) world_queued =
             Some (Inr (), ?W)"
    using in_turn_run [where envs = "\<lambda>jid info. env0", OF m g _ s]
    by (simp add: finished_def reap_log_def empty_state_def world0_def)
  have b: "process_jobs cfg0 (\<lambda>c. c) (\<lambda>jid info. env0) Fs_ok sched world_queued = None \<or>
           process_jobs cfg0 (\<lambda>c. c) (\<lambda>jid info. env0) Fs_ok sched world_queued =
             Some (Inr (), ?W)" for sched
    using single_job_all [where envs = "\<lambda>jid info. env0" and s = sched and pos = Poll
        and cfg = cfg0 and extractor = "\<lambda>c. c", OF g _ r q]
    by (simp add: process_jobs_def world0_def)
  have c: "final_geom env0 \<noteq> None \<and> final_geom env0 \<noteq> Some []"
    by (simp add: env0_def)
  have d: "observed cfg0 [(''folders/waiting'', ''h2o_freq.xyz'')] = []"
    by (simp add: observed_def cfg0_def)
  from a b c d show ?thesis by blast
qed

section \<open>A job that is incomplete on every attempt\<close>












end
